theory Spec2Isabelle
  imports Complex_Main "HOL-Library.AList"
begin

section \<open>Documents of the chat server\<close>

text \<open>
  The server keeps subscriptions and messages as Python dictionaries. A key of a
  dictionary is either missing, or bound to \<open>None\<close>, or bound to a value; the source
  tells the three apart where it reads with a default (\<open>d.get(k, default)\<close>) or by index
  (\<open>d[k]\<close>), and merges the first two where it reads with \<open>d.get(k)\<close>. A field that the
  source only ever reads with \<open>d.get(k)\<close> is an \<open>option\<close>; a field that it reads in one
  of the other two ways is a \<open>field\<close>.
\<close>

datatype 'a field = Missing | Null | Val 'a

datatype error = KeyError string | TypeError | ValueError | AttributeError

text \<open>\<open>d.get(k)\<close> on a field.\<close>

fun get :: "'a field \<Rightarrow> 'a option" where
  "get Missing = None"
| "get Null = None"
| "get (Val v) = Some v"

text \<open>\<open>d[k]\<close> on a field: a missing key raises, a key bound to \<open>None\<close> gives \<open>None\<close>.\<close>

fun getitem :: "string \<Rightarrow> 'a field \<Rightarrow> error + 'a option" where
  "getitem k Missing = Inl (KeyError k)"
| "getitem k Null = Inr None"
| "getitem k (Val v) = Inr (Some v)"

text \<open>Truth value of an optional string: \<open>None\<close> and the empty string are false.\<close>

fun truthy :: "string option \<Rightarrow> bool" where
  "truthy None = False"
| "truthy (Some s) = (s \<noteq> [])"

text \<open>
  A location dictionary (\<open>schemas.Location\<close>). Coordinates and radius are Python floats.
  A finite float is a real number, and two floats compare as the real numbers they are:
  the values are real numbers here. What float arithmetic makes of them is another
  matter: the operations on floats are not those on the reals, and they are taken from
  the library below.
\<close>

record location =
  name :: "string field"
  latitude :: "real field"
  longitude :: "real field"
  radius_km :: "real field"

text \<open>A dictionary is false when it has no key at all.\<close>

definition empty_dict :: "location \<Rightarrow> bool" where
  "empty_dict l \<longleftrightarrow>
     name l = Missing \<and> latitude l = Missing \<and> longitude l = Missing \<and> radius_km l = Missing"

fun truthy_dict :: "location option \<Rightarrow> bool" where
  "truthy_dict None = False"
| "truthy_dict (Some l) = (\<not> empty_dict l)"

text \<open>
  A \<open>datetime\<close> object is naive (a reading of a wall clock, with no offset) or aware (an
  instant, with an offset from UTC); the number is the count of microseconds, of the
  reading or of the instant. Two naive ones compare by their readings and two aware
  ones by their instants; \<open><\<close> and \<open>>\<close> between a naive and an aware one raise
  \<open>TypeError\<close>.
\<close>

datatype datetime = Naive int | Aware int

fun datetime_lt :: "datetime \<Rightarrow> datetime \<Rightarrow> error + bool" where
  "datetime_lt (Naive a) (Naive b) = Inr (a < b)"
| "datetime_lt (Aware a) (Aware b) = Inr (a < b)"
| "datetime_lt (Naive a) (Aware b) = Inl TypeError"
| "datetime_lt (Aware a) (Naive b) = Inl TypeError"

definition datetime_gt :: "datetime \<Rightarrow> datetime \<Rightarrow> error + bool" where
  "datetime_gt x y = datetime_lt y x"

text \<open>
  A subscription document. \<open>'t\<close> is the type of its time values: \<open>datetime\<close> objects in
  the store, ISO strings once serialised. \<open>doc_id\<close> is the document's identifier, kept
  under \<open>_id\<close> in the store and moved to \<open>id\<close> when the document is returned.
\<close>

record 't subscription =
  doc_id :: string
  user_id :: string
  scope :: "string field"
  what :: "string list option"
  sub_where :: "location option"
  when_start :: "'t option"
  when_end :: "'t option"
  room_id :: "string option"
  chat_id :: "string option"
  created_at :: "'t option"

text \<open>
  A time value of a message is an ISO string or a \<open>datetime\<close> object
  (\<open>isinstance(raw_event, str)\<close> tells them apart). The content of a message is a
  string (\<open>MessageIn.content\<close>, copied by \<open>store_message\<close>); \<open>None\<close> here is the key
  missing, which the source reads as the empty string.
\<close>

datatype timeval = Iso string | Date datetime

record message =
  msg_user_id :: string
  content :: "string option"
  location :: "location option"
  event_time :: "timeval option"
  msg_scope :: "string option"
  msg_room_id :: "string option"
  msg_chat_id :: "string option"
  msg_created_at :: "timeval option"

section \<open>The Python library\<close>

text \<open>
  The functions of Python's library that the source calls. Their code is not in the
  repository, so they are parameters of the model: \<open>str.lower\<close> and \<open>str.strip\<close>;
  \<open>datetime.fromisoformat\<close>, where \<open>None\<close> stands for its \<open>ValueError\<close>, and
  \<open>datetime.isoformat\<close>; and the arithmetic of floats, that is \<open>-\<close>, \<open>+\<close>, \<open>*\<close>, \<open>/\<close> and
  \<open>**\<close> with an integer exponent, and \<open>radians\<close>, \<open>sin\<close>, \<open>cos\<close>, \<open>sqrt\<close> and \<open>asin\<close> of
  \<open>math\<close>, each giving the float that the machine gives. The domain checks of
  \<open>math.sqrt\<close> and \<open>math.asin\<close> are not parameters: they are written out below.
\<close>

record library =
  lower :: "string \<Rightarrow> string"
  strip :: "string \<Rightarrow> string"
  fromisoformat :: "string \<Rightarrow> datetime option"
  isoformat :: "datetime \<Rightarrow> string"
  fl_sub :: "real \<Rightarrow> real \<Rightarrow> real"
  fl_add :: "real \<Rightarrow> real \<Rightarrow> real"
  fl_mul :: "real \<Rightarrow> real \<Rightarrow> real"
  fl_div :: "real \<Rightarrow> real \<Rightarrow> real"
  fl_pow :: "real \<Rightarrow> nat \<Rightarrow> real"
  fl_radians :: "real \<Rightarrow> real"
  fl_sin :: "real \<Rightarrow> real"
  fl_cos :: "real \<Rightarrow> real"
  fl_sqrt :: "real \<Rightarrow> real"
  fl_asin :: "real \<Rightarrow> real"

text \<open>\<open>math.sqrt\<close> raises \<open>ValueError\<close> below 0, and \<open>math.asin\<close> outside \<open>[-1, 1]\<close>.\<close>

definition math_sqrt :: "library \<Rightarrow> real \<Rightarrow> error + real" where
  "math_sqrt lib x = (if x < 0 then Inl ValueError else Inr (fl_sqrt lib x))"

definition math_asin :: "library \<Rightarrow> real \<Rightarrow> error + real" where
  "math_asin lib x = (if x < - 1 \<or> 1 < x then Inl ValueError else Inr (fl_asin lib x))"

text \<open>\<open>k in s\<close> for two strings: \<open>k\<close> starts at some position of \<open>s\<close>.\<close>

fun starts_with :: "string \<Rightarrow> string \<Rightarrow> bool" where
  "starts_with [] s = True"
| "starts_with (c # k) [] = False"
| "starts_with (c # k) (d # s) = (c = d \<and> starts_with k s)"

fun str_in :: "string \<Rightarrow> string \<Rightarrow> bool" where
  "str_in k [] = (k = [])"
| "str_in k (d # s) = (starts_with k (d # s) \<or> str_in k s)"

section \<open>services/subscriptions.py\<close>

definition EARTH_RADIUS_KM :: real where
  "EARTH_RADIUS_KM = 6371.0"

definition haversine_distance ::
  "library \<Rightarrow> real \<Rightarrow> real \<Rightarrow> real \<Rightarrow> real \<Rightarrow> error + real" where
  "haversine_distance lib lat1 lon1 lat2 lon2 =
     (let d_lat = fl_radians lib (fl_sub lib lat2 lat1);
          d_lon = fl_radians lib (fl_sub lib lon2 lon1);
          a = fl_add lib
                (fl_pow lib (fl_sin lib (fl_div lib d_lat 2)) 2)
                (fl_mul lib
                   (fl_mul lib (fl_cos lib (fl_radians lib lat1)) (fl_cos lib (fl_radians lib lat2)))
                   (fl_pow lib (fl_sin lib (fl_div lib d_lon 2)) 2))
      in case math_sqrt lib a of
           Inl e \<Rightarrow> Inl e
         | Inr r \<Rightarrow>
             (case math_asin lib r of
                Inl e \<Rightarrow> Inl e
              | Inr s \<Rightarrow> Inr (fl_mul lib EARTH_RADIUS_KM (fl_mul lib 2 s))))"

definition normalise_keywords :: "library \<Rightarrow> string list \<Rightarrow> string list" where
  "normalise_keywords lib keywords =
     map (\<lambda>word. lower lib (strip lib word)) (filter (\<lambda>word. strip lib word \<noteq> []) keywords)"

text \<open>
  The document that \<open>create_subscription\<close> writes to the store, from the payload, the
  identifier the store assigns and the current time. Iterating over a \<open>what\<close> that is
  \<open>None\<close> raises \<open>TypeError\<close>.
\<close>

record 't payload =
  p_user_id :: string
  p_scope :: "string field"
  p_what :: "string list field"
  p_where :: "location option"
  p_when_start :: "'t option"
  p_when_end :: "'t option"
  p_room_id :: "string option"
  p_chat_id :: "string option"

definition create_subscription ::
  "library \<Rightarrow> string \<Rightarrow> 't \<Rightarrow> 't payload \<Rightarrow> error + 't subscription" where
  "create_subscription lib inserted_id utcnow p =
     (case (case p_what p of Missing \<Rightarrow> Inr [] | Null \<Rightarrow> Inl TypeError | Val ws \<Rightarrow> Inr ws) of
        Inl e \<Rightarrow> Inl e
      | Inr keywords \<Rightarrow>
          Inr \<lparr> doc_id = inserted_id,
                user_id = p_user_id p,
                scope = (case p_scope p of Missing \<Rightarrow> Val ''any'' | f \<Rightarrow> f),
                what = Some (normalise_keywords lib keywords),
                sub_where = p_where p,
                when_start = p_when_start p,
                when_end = p_when_end p,
                room_id = p_room_id p,
                chat_id = p_chat_id p,
                created_at = Some utcnow \<rparr>)"

definition match_keywords :: "library \<Rightarrow> 't subscription \<Rightarrow> message \<Rightarrow> bool" where
  "match_keywords lib subscription message =
     (let keywords = (case what subscription of None \<Rightarrow> [] | Some ws \<Rightarrow> ws) in
      if keywords = [] then True
      else (let content = lower lib (case content message of None \<Rightarrow> [] | Some c \<Rightarrow> c)
            in list_ex (\<lambda>keyword. str_in keyword content) keywords))"

definition match_scope :: "'t subscription \<Rightarrow> message \<Rightarrow> bool" where
  "match_scope subscription message =
     (let scope = (case scope subscription of Missing \<Rightarrow> Some ''any'' | f \<Rightarrow> get f) in
      if scope = Some ''any'' then True
      else if msg_scope message \<noteq> scope then False
      else if scope = Some ''room'' \<and> truthy (room_id subscription)
              \<and> room_id subscription \<noteq> msg_room_id message then False
      else if scope = Some ''p2p'' \<and> truthy (chat_id subscription)
              \<and> chat_id subscription \<noteq> msg_chat_id message then False
      else True)"

text \<open>
  The call of the distance function on what the four index operations gave: a
  coordinate that is \<open>None\<close> raises \<open>TypeError\<close> in the arithmetic.
\<close>

definition haversine_call ::
  "library \<Rightarrow> real option \<Rightarrow> real option \<Rightarrow> real option \<Rightarrow> real option \<Rightarrow> error + real" where
  "haversine_call lib lat1 lon1 lat2 lon2 =
     (case (lat1, lon1, lat2, lon2) of
        (Some a, Some b, Some c, Some d) \<Rightarrow> haversine_distance lib a b c d
      | _ \<Rightarrow> Inl TypeError)"

text \<open>
  The arguments of the call are evaluated from left to right, so the first missing key
  raises its \<open>KeyError\<close> before the distance function is entered.
\<close>

definition match_location :: "library \<Rightarrow> 't subscription \<Rightarrow> message \<Rightarrow> error + bool" where
  "match_location lib subscription message =
     (let sub_location = sub_where subscription;
          msg_location = location message in
      if \<not> truthy_dict sub_location then Inr True
      else if \<not> truthy_dict msg_location then Inr False
      else
        (let radius = (case get (radius_km (the sub_location)) of
                         None \<Rightarrow> 0 | Some r \<Rightarrow> if r = 0 then 0 else r) in
         if radius \<le> 0 then Inr True
         else
           (case getitem ''latitude'' (latitude (the sub_location)) of
              Inl e \<Rightarrow> Inl e
            | Inr lat1 \<Rightarrow>
           (case getitem ''longitude'' (longitude (the sub_location)) of
              Inl e \<Rightarrow> Inl e
            | Inr lon1 \<Rightarrow>
           (case getitem ''latitude'' (latitude (the msg_location)) of
              Inl e \<Rightarrow> Inl e
            | Inr lat2 \<Rightarrow>
           (case getitem ''longitude'' (longitude (the msg_location)) of
              Inl e \<Rightarrow> Inl e
            | Inr lon2 \<Rightarrow>
           (case haversine_call lib lat1 lon1 lat2 lon2 of
              Inl e \<Rightarrow> Inl e
            | Inr distance \<Rightarrow> Inr (distance \<le> radius))))))))"

text \<open>
  The time predicate. A string that \<open>fromisoformat\<close> refuses passes; the two
  comparisons with the bounds are those of \<open>datetime\<close>, and raise when the event time is
  aware and the bound naive, or the other way round.
\<close>

fun truthy_time :: "timeval option \<Rightarrow> bool" where
  "truthy_time None = False"
| "truthy_time (Some (Iso s)) = (s \<noteq> [])"
| "truthy_time (Some (Date d)) = True"

definition match_time :: "library \<Rightarrow> datetime subscription \<Rightarrow> message \<Rightarrow> error + bool" where
  "match_time lib subscription message =
     (let raw_event = (if truthy_time (event_time message) then event_time message
                       else msg_created_at message) in
      if \<not> truthy_time raw_event then Inr True
      else
        (case (case the raw_event of Iso s \<Rightarrow> fromisoformat lib s | Date d \<Rightarrow> Some d) of
           None \<Rightarrow> Inr True
         | Some ev \<Rightarrow>
             (case (case when_start subscription of
                      None \<Rightarrow> Inr False
                    | Some start \<Rightarrow> datetime_lt ev start) of
                Inl e \<Rightarrow> Inl e
              | Inr True \<Rightarrow> Inr False
              | Inr False \<Rightarrow>
                  (case (case when_end subscription of
                           None \<Rightarrow> Inr False
                         | Some end' \<Rightarrow> datetime_gt ev end') of
                     Inl e \<Rightarrow> Inl e
                   | Inr True \<Rightarrow> Inr False
                   | Inr False \<Rightarrow> Inr True))))"

text \<open>
  The condition of the dispatch loop: the four predicates joined by \<open>and\<close>, which
  evaluates them from left to right and stops at the first that is false or raises.
\<close>

definition matches :: "library \<Rightarrow> datetime subscription \<Rightarrow> message \<Rightarrow> error + bool" where
  "matches lib subscription message =
     (if \<not> match_scope subscription message then Inr False
      else if \<not> match_keywords lib subscription message then Inr False
      else (case match_location lib subscription message of
              Inl e \<Rightarrow> Inl e
            | Inr False \<Rightarrow> Inr False
            | Inr True \<Rightarrow> match_time lib subscription message))"

text \<open>
  The query that \<open>find_matching_subscriptions\<close> sends to the store is a disjunction
  (\<open>$or\<close>) of clauses; a clause is a conjunction of equalities between a key of the
  document and a value. The store is MongoDB: an equality with a string holds when the
  key is bound to that string, an equality with \<open>None\<close> holds when the key is bound to
  \<open>None\<close> or missing.
\<close>

type_synonym clause = "(string \<times> string option) list"

definition of_option :: "'a option \<Rightarrow> 'a field" where
  "of_option v = (case v of None \<Rightarrow> Null | Some x \<Rightarrow> Val x)"

definition doc_field :: "'t subscription \<Rightarrow> string \<Rightarrow> string field" where
  "doc_field s k =
     (if k = ''scope'' then scope s
      else if k = ''room_id'' then of_option (room_id s)
      else if k = ''chat_id'' then of_option (chat_id s)
      else Missing)"

definition satisfies :: "'t subscription \<Rightarrow> clause \<Rightarrow> bool" where
  "satisfies s c = list_all (\<lambda>(k, v). get (doc_field s k) = v) c"

definition find_docs :: "clause list \<Rightarrow> 't subscription list \<Rightarrow> 't subscription list" where
  "find_docs query store = filter (\<lambda>s. list_ex (satisfies s) query) store"

definition candidate_query :: "message \<Rightarrow> clause list" where
  "candidate_query message =
     (let scope = msg_scope message in
      [[(''scope'', Some ''any'')], [(''scope'', scope)]]
      @ (if scope = Some ''room'' \<and> truthy (msg_room_id message)
         then [[(''scope'', Some ''room''), (''room_id'', msg_room_id message)]] else [])
      @ (if scope = Some ''p2p'' \<and> truthy (msg_chat_id message)
         then [[(''scope'', Some ''p2p''), (''chat_id'', msg_chat_id message)]] else []))"

text \<open>
  What the loop does to a matching document before it appends it: the time values that
  are set become ISO strings.
\<close>

definition serialise :: "library \<Rightarrow> datetime subscription \<Rightarrow> string subscription" where
  "serialise lib s =
     \<lparr> doc_id = doc_id s,
       user_id = user_id s,
       scope = scope s,
       what = what s,
       sub_where = sub_where s,
       when_start = map_option (isoformat lib) (when_start s),
       when_end = map_option (isoformat lib) (when_end s),
       room_id = room_id s,
       chat_id = chat_id s,
       created_at = map_option (isoformat lib) (created_at s) \<rparr>"

text \<open>The loop over the cursor; an exception of a predicate ends it.\<close>

fun scan ::
  "library \<Rightarrow> datetime subscription list \<Rightarrow> message \<Rightarrow> string subscription list
     \<Rightarrow> error + string subscription list" where
  "scan lib [] message found = Inr found"
| "scan lib (subscription # cursor) message found =
     (case matches lib subscription message of
        Inl e \<Rightarrow> Inl e
      | Inr True \<Rightarrow> scan lib cursor message (found @ [serialise lib subscription])
      | Inr False \<Rightarrow> scan lib cursor message found)"

definition find_matching_subscriptions ::
  "library \<Rightarrow> datetime subscription list \<Rightarrow> message \<Rightarrow> error + string subscription list" where
  "find_matching_subscriptions lib store message =
     scan lib (find_docs (candidate_query message) store) message []"

section \<open>websocket_manager.py\<close>

text \<open>
  A websocket is an opaque handle \<open>'ws\<close>. A \<open>dict\<close> is an association list in insertion
  order, and a \<open>defaultdict\<close> is a \<open>dict\<close> whose index operation first binds a missing key
  to the default. A Python \<open>set\<close> of handles is kept as a list without repetition; the
  order in which \<open>list(s)\<close> gives the members of a set is the set's own and not that list's:
  it is the order of a \<open>rank\<close> of the handles, which is a parameter.

  \<open>send_json\<close> on a handle returns, or raises \<open>RuntimeError\<close>, or raises another
  exception (\<open>WebSocketDisconnect\<close>, say). The functions that send catch \<open>RuntimeError\<close>
  only: another exception leaves the loop and the function. Every function that sends
  gives the new registry, the list of the handles on which it called \<open>send_json\<close>, in
  the order of the calls, and whether an exception left it.
\<close>

datatype outcome = Delivered | Closed | Broken

definition snapshot :: "('a \<Rightarrow> nat) \<Rightarrow> 'a list \<Rightarrow> 'a list" where
  "snapshot rank members = sort_key rank members"

definition set_add :: "'a \<Rightarrow> 'a list \<Rightarrow> 'a list" where
  "set_add x xs = (if x \<in> set xs then xs else xs @ [x])"

definition discard :: "'a \<Rightarrow> 'a list \<Rightarrow> 'a list" where
  "discard x xs = removeAll x xs"

definition contains_key :: "'k \<Rightarrow> ('k \<times> 'v) list \<Rightarrow> bool" where
  "contains_key k d = (map_of d k \<noteq> None)"

definition get_or :: "('k \<times> 'v) list \<Rightarrow> 'k \<Rightarrow> 'v \<Rightarrow> 'v" where
  "get_or d k dflt = (case map_of d k of None \<Rightarrow> dflt | Some v \<Rightarrow> v)"

text \<open>\<open>d[k]\<close> on a \<open>defaultdict\<close>: the dictionary after the access, and the value.\<close>

definition default_getitem :: "'v \<Rightarrow> ('k \<times> 'v) list \<Rightarrow> 'k \<Rightarrow> ('k \<times> 'v) list \<times> 'v" where
  "default_getitem dflt d k =
     (case map_of d k of None \<Rightarrow> (d @ [(k, dflt)], dflt) | Some v \<Rightarrow> (d, v))"

subsection \<open>ConnectionManager\<close>

definition ConnectionManager_connect :: "'ws \<Rightarrow> 'ws list \<Rightarrow> 'ws list" where
  "ConnectionManager_connect websocket active_connections = set_add websocket active_connections"

definition ConnectionManager_disconnect :: "'ws \<Rightarrow> 'ws list \<Rightarrow> 'ws list" where
  "ConnectionManager_disconnect websocket active_connections = discard websocket active_connections"

fun ConnectionManager_broadcast_loop ::
  "('ws \<Rightarrow> outcome) \<Rightarrow> 'ws list \<Rightarrow> 'ws list \<times> 'ws list \<Rightarrow> 'ws list \<times> 'ws list \<times> bool" where
  "ConnectionManager_broadcast_loop send_json [] (active_connections, sent) =
     (active_connections, sent, False)"
| "ConnectionManager_broadcast_loop send_json (connection # rest) (active_connections, sent) =
     (case send_json connection of
        Delivered \<Rightarrow>
          ConnectionManager_broadcast_loop send_json rest (active_connections, sent @ [connection])
      | Closed \<Rightarrow>
          ConnectionManager_broadcast_loop send_json rest
            (discard connection active_connections, sent @ [connection])
      | Broken \<Rightarrow> (active_connections, sent @ [connection], True))"

definition ConnectionManager_broadcast ::
  "('ws \<Rightarrow> outcome) \<Rightarrow> ('ws \<Rightarrow> nat) \<Rightarrow> 'ws list \<Rightarrow> 'ws list \<times> 'ws list \<times> bool" where
  "ConnectionManager_broadcast send_json rank active_connections =
     ConnectionManager_broadcast_loop send_json (snapshot rank active_connections)
       (active_connections, [])"

subsection \<open>RoomConnectionManager\<close>

type_synonym 'ws rooms = "(string \<times> 'ws list) list"

definition RoomConnectionManager_connect :: "string \<Rightarrow> 'ws \<Rightarrow> 'ws rooms \<Rightarrow> 'ws rooms" where
  "RoomConnectionManager_connect room websocket rooms =
     (let (rooms', members) = default_getitem [] rooms room
      in AList.update room (set_add websocket members) rooms')"

definition RoomConnectionManager_disconnect :: "string \<Rightarrow> 'ws \<Rightarrow> 'ws rooms \<Rightarrow> 'ws rooms" where
  "RoomConnectionManager_disconnect room websocket rooms =
     (if contains_key room rooms then
        (let (rooms', members) = default_getitem [] rooms room;
             rooms'' = AList.update room (discard websocket members) rooms'
         in if snd (default_getitem [] rooms'' room) = [] then AList.delete room rooms''
            else rooms'')
      else rooms)"



subsection \<open>P2PConnectionManager\<close>

type_synonym 'ws sessions = "(string \<times> (string \<times> 'ws) list) list"

definition P2PConnectionManager_connect ::
  "string \<Rightarrow> string \<Rightarrow> 'ws \<Rightarrow> 'ws sessions \<Rightarrow> 'ws sessions" where
  "P2PConnectionManager_connect session_id user websocket sessions =
     (let (sessions', participants) = default_getitem [] sessions session_id
      in AList.update session_id (AList.update user websocket participants) sessions')"

text \<open>
  The deletion that \<open>disconnect\<close> and the \<open>RuntimeError\<close> branch of \<open>send\<close> share: the
  participant's entry, whatever handle it holds, then the session when it is left empty.
\<close>

definition remove_participant :: "string \<Rightarrow> string \<Rightarrow> 'ws sessions \<Rightarrow> 'ws sessions" where
  "remove_participant session_id user sessions =
     (if contains_key session_id sessions
         \<and> contains_key user (snd (default_getitem [] sessions session_id)) then
        (let (sessions', participants) = default_getitem [] sessions session_id;
             sessions'' = AList.update session_id (AList.delete user participants) sessions'
         in if snd (default_getitem [] sessions'' session_id) = []
            then AList.delete session_id sessions'' else sessions'')
      else sessions)"

definition P2PConnectionManager_disconnect :: "string \<Rightarrow> string \<Rightarrow> 'ws sessions \<Rightarrow> 'ws sessions" where
  "P2PConnectionManager_disconnect session_id user sessions =
     remove_participant session_id user sessions"

text \<open>The participants of a session are the items of a \<open>dict\<close>, in its insertion order.\<close>

fun P2PConnectionManager_send_loop ::
  "('ws \<Rightarrow> outcome) \<Rightarrow> string \<Rightarrow> string list \<Rightarrow> (string \<times> 'ws) list
     \<Rightarrow> 'ws sessions \<times> 'ws list \<Rightarrow> 'ws sessions \<times> 'ws list \<times> bool" where
  "P2PConnectionManager_send_loop send_json session_id exclude_set [] (sessions, sent) =
     (sessions, sent, False)"
| "P2PConnectionManager_send_loop send_json session_id exclude_set ((user, connection) # rest)
       (sessions, sent) =
     (if user \<in> set exclude_set
      then P2PConnectionManager_send_loop send_json session_id exclude_set rest (sessions, sent)
      else (case send_json connection of
              Delivered \<Rightarrow>
                P2PConnectionManager_send_loop send_json session_id exclude_set rest
                  (sessions, sent @ [connection])
            | Closed \<Rightarrow>
                P2PConnectionManager_send_loop send_json session_id exclude_set rest
                  (remove_participant session_id user sessions, sent @ [connection])
            | Broken \<Rightarrow> (sessions, sent @ [connection], True)))"

definition P2PConnectionManager_send ::
  "('ws \<Rightarrow> outcome) \<Rightarrow> string \<Rightarrow> string list option \<Rightarrow> 'ws sessions
     \<Rightarrow> 'ws sessions \<times> 'ws list \<times> bool" where
  "P2PConnectionManager_send send_json session_id exclude sessions =
     (let exclude_set = (case exclude of None \<Rightarrow> [] | Some us \<Rightarrow> us)
      in P2PConnectionManager_send_loop send_json session_id exclude_set
           (get_or sessions session_id []) (sessions, []))"

subsection \<open>SubscriptionConnectionManager\<close>

type_synonym 'ws users = "(string \<times> 'ws list) list"

definition SubscriptionConnectionManager_connect :: "string \<Rightarrow> 'ws \<Rightarrow> 'ws users \<Rightarrow> 'ws users" where
  "SubscriptionConnectionManager_connect user websocket users =
     (let (users', connections) = default_getitem [] users user
      in AList.update user (set_add websocket connections) users')"

definition SubscriptionConnectionManager_disconnect :: "string \<Rightarrow> 'ws \<Rightarrow> 'ws users \<Rightarrow> 'ws users" where
  "SubscriptionConnectionManager_disconnect user websocket users =
     (if contains_key user users then
        (let (users', connections) = default_getitem [] users user;
             users'' = AList.update user (discard websocket connections) users'
         in if snd (default_getitem [] users'' user) = [] then AList.delete user users''
            else users'')
      else users)"



section \<open>main.py\<close>

text \<open>
  The endpoint \<open>websocket_p2p\<close> of the path \<open>/ws/p2p/{session_id}/{user_id}\<close>, in three
  steps. A connection that opens is registered under the \<open>user_id\<close> of its path. A message
  received on it is stored and sent to the session, leaving out the user that the
  message itself names (\<open>message.user_id\<close>); the \<open>user_id\<close> of the path is not looked at. A
  connection that closes removes the entry of the \<open>user_id\<close> of its path; its handle is not
  looked at.
\<close>

definition websocket_p2p_open :: "string \<Rightarrow> string \<Rightarrow> 'ws \<Rightarrow> 'ws sessions \<Rightarrow> 'ws sessions" where
  "websocket_p2p_open session_id user websocket sessions =
     P2PConnectionManager_connect session_id user websocket sessions"

definition websocket_p2p_message ::
  "('ws \<Rightarrow> outcome) \<Rightarrow> string \<Rightarrow> string \<Rightarrow> message \<Rightarrow> 'ws sessions
     \<Rightarrow> 'ws sessions \<times> 'ws list \<times> bool" where
  "websocket_p2p_message send_json session_id user message sessions =
     P2PConnectionManager_send send_json session_id (Some [msg_user_id message]) sessions"

definition websocket_p2p_close :: "string \<Rightarrow> string \<Rightarrow> 'ws \<Rightarrow> 'ws sessions \<Rightarrow> 'ws sessions" where
  "websocket_p2p_close session_id user websocket sessions =
     P2PConnectionManager_disconnect session_id user sessions"

text \<open>
  The endpoint \<open>websocket_common\<close> hands a message to \<open>CommonChat.handle_incoming\<close>, which
  stores it and broadcasts it to the global set.
\<close>

definition websocket_common_message ::
  "('ws \<Rightarrow> outcome) \<Rightarrow> ('ws \<Rightarrow> nat) \<Rightarrow> message \<Rightarrow> 'ws list \<Rightarrow> 'ws list \<times> 'ws list \<times> bool" where
  "websocket_common_message send_json rank message active_connections =
     ConnectionManager_broadcast send_json rank active_connections"

text \<open>
  The endpoint \<open>websocket_room\<close> registers the connection with \<open>room_manager\<close>, which the
  module binds to a \<open>RoomManager\<close> and, two lines below, to a \<open>RoomConnectionManager\<close>. A
  message received on the connection is handed to \<open>room_manager.handle_incoming\<close>, a
  method that \<open>RoomConnectionManager\<close> does not have: the call raises \<open>AttributeError\<close>,
  and the lines after it, which store the message and broadcast it to the room, are not
  reached. The registry is as it was.
\<close>

definition websocket_room_message ::
  "('ws \<Rightarrow> outcome) \<Rightarrow> ('ws \<Rightarrow> nat) \<Rightarrow> string \<Rightarrow> message \<Rightarrow> 'ws rooms
     \<Rightarrow> error + 'ws rooms \<times> 'ws list \<times> bool" where
  "websocket_room_message send_json rank room message rooms = Inl AttributeError"

section \<open>Sequences of registry operations\<close>

text \<open>
  A sequence of joins and leaves on one room, on the global set or on the connections of
  one user, applied from left to right to the empty registry; and a sequence of
  connections that open and close on the paths of one session.
\<close>

datatype 'ws room_op = Join 'ws | Leave 'ws

fun room_step :: "string \<Rightarrow> 'ws room_op \<Rightarrow> 'ws rooms \<Rightarrow> 'ws rooms" where
  "room_step room (Join ws) rooms = RoomConnectionManager_connect room ws rooms"
| "room_step room (Leave ws) rooms = RoomConnectionManager_disconnect room ws rooms"

definition room_replay :: "string \<Rightarrow> 'ws room_op list \<Rightarrow> 'ws rooms" where
  "room_replay room ops = fold (room_step room) ops []"

fun common_step :: "'ws room_op \<Rightarrow> 'ws list \<Rightarrow> 'ws list" where
  "common_step (Join ws) active_connections = ConnectionManager_connect ws active_connections"
| "common_step (Leave ws) active_connections = ConnectionManager_disconnect ws active_connections"

definition common_replay :: "'ws room_op list \<Rightarrow> 'ws list" where
  "common_replay ops = fold common_step ops []"

fun user_step :: "string \<Rightarrow> 'ws room_op \<Rightarrow> 'ws users \<Rightarrow> 'ws users" where
  "user_step user (Join ws) users = SubscriptionConnectionManager_connect user ws users"
| "user_step user (Leave ws) users = SubscriptionConnectionManager_disconnect user ws users"

definition user_replay :: "string \<Rightarrow> 'ws room_op list \<Rightarrow> 'ws users" where
  "user_replay user ops = fold (user_step user) ops []"

datatype 'ws session_op = Opens string 'ws | Closes string 'ws

fun session_step :: "string \<Rightarrow> 'ws session_op \<Rightarrow> 'ws sessions \<Rightarrow> 'ws sessions" where
  "session_step session_id (Opens user ws) sessions = websocket_p2p_open session_id user ws sessions"
| "session_step session_id (Closes user ws) sessions = websocket_p2p_close session_id user ws sessions"

definition session_replay :: "string \<Rightarrow> 'ws session_op list \<Rightarrow> 'ws sessions" where
  "session_replay session_id ops = fold (session_step session_id) ops []"

section \<open>The specification's reading\<close>

text \<open>
  These definitions follow the words of the specification, not the code; the theorems
  below compare them with the functions above.
\<close>

text \<open>The scope filter of a subscription; a document with no \<open>scope\<close> key reads as \<open>any\<close>.\<close>

definition scope_filter :: "'t subscription \<Rightarrow> string option" where
  "scope_filter s = (case scope s of Missing \<Rightarrow> Some ''any'' | Null \<Rightarrow> None | Val x \<Rightarrow> Some x)"

definition spec_match_scope :: "'t subscription \<Rightarrow> message \<Rightarrow> bool" where
  "spec_match_scope s m \<longleftrightarrow>
     scope_filter s = Some ''any''
     \<or> (scope_filter s = msg_scope m
        \<and> (scope_filter s = Some ''room'' \<longrightarrow> \<not> truthy (room_id s) \<or> room_id s = msg_room_id m)
        \<and> (scope_filter s = Some ''p2p'' \<longrightarrow> \<not> truthy (chat_id s) \<or> chat_id s = msg_chat_id m))"

text \<open>
  The time of a message: its event time if present, else its creation time, a value being
  present when it is neither \<open>None\<close> nor the empty string; and the window of a
  subscription, for a time that can be compared with its bounds.
\<close>

definition present :: "timeval option \<Rightarrow> bool" where
  "present v \<longleftrightarrow> v \<noteq> None \<and> v \<noteq> Some (Iso [])"

definition message_time :: "message \<Rightarrow> timeval option" where
  "message_time m =
     (if present (event_time m) then event_time m
      else if present (msg_created_at m) then msg_created_at m
      else None)"

definition parsed_time :: "library \<Rightarrow> message \<Rightarrow> datetime option" where
  "parsed_time lib m =
     (case message_time m of
        None \<Rightarrow> None
      | Some (Date t) \<Rightarrow> Some t
      | Some (Iso str) \<Rightarrow> fromisoformat lib str)"

fun aware :: "datetime \<Rightarrow> bool" where
  "aware (Aware t) = True"
| "aware (Naive t) = False"

fun ticks :: "datetime \<Rightarrow> int" where
  "ticks (Aware t) = t"
| "ticks (Naive t) = t"

definition comparable :: "datetime \<Rightarrow> datetime option \<Rightarrow> bool" where
  "comparable t bound = (case bound of None \<Rightarrow> True | Some b \<Rightarrow> aware b = aware t)"

definition in_window :: "datetime subscription \<Rightarrow> datetime \<Rightarrow> bool" where
  "in_window s t \<longleftrightarrow>
     (case when_start s of None \<Rightarrow> True | Some a \<Rightarrow> ticks a \<le> ticks t)
     \<and> (case when_end s of None \<Rightarrow> True | Some b \<Rightarrow> ticks t \<le> ticks b)"





text \<open>A location filter that asks for a distance and lacks a coordinate.\<close>

definition lacks_coordinate :: "'t subscription \<Rightarrow> bool" where
  "lacks_coordinate s \<longleftrightarrow>
     (case sub_where s of
        None \<Rightarrow> False
      | Some f \<Rightarrow>
          (case radius_km f of Val r \<Rightarrow> 0 < r | _ \<Rightarrow> False)
          \<and> (latitude f = Missing \<or> longitude f = Missing))"

text \<open>A call that raised.\<close>

definition is_error :: "error + 'a \<Rightarrow> bool" where
  "is_error r = (case r of Inl e \<Rightarrow> True | Inr v \<Rightarrow> False)"

text \<open>
  The handles of a snapshot that a broadcast tries: all of them up to the first on which
  \<open>send_json\<close> raises an exception that is not \<open>RuntimeError\<close>, that one included.
\<close>

fun tried :: "('ws \<Rightarrow> outcome) \<Rightarrow> 'ws list \<Rightarrow> 'ws list" where
  "tried send_json [] = []"
| "tried send_json (c # cs) = (if send_json c = Broken then [c] else c # tried send_json cs)"

text \<open>The handles joined to a room and not left afterwards.\<close>

definition joined_not_left :: "'ws room_op list \<Rightarrow> 'ws set" where
  "joined_not_left ops = {h. \<exists>pre post. ops = pre @ Join h # post \<and> Leave h \<notin> set post}"

text \<open>
  The handles of a session that, by the specification, are its members: a handle has
  opened under a participant, it has not closed since, and no other connection has
  opened under that participant since (the most recent join wins).
\<close>

definition session_members :: "'ws session_op list \<Rightarrow> 'ws set" where
  "session_members ops =
     {h. \<exists>pre post u. ops = pre @ Opens u h # post \<and> Closes u h \<notin> set post
                        \<and> (\<forall>h'. Opens u h' \<notin> set post)}"

section \<open>Example documents\<close>

text \<open>
  A library for the examples. Its strings are ASCII: the upper-case letters are the
  codes 65 to 90, and the white space that \<open>strip\<close> removes is the codes 9 to 13 and 28 to
  32. Its clock starts at \<open>2024-01-01T00:00:00\<close>. Its arithmetic is that of the real
  numbers.
\<close>

definition ascii_lower_char :: "char \<Rightarrow> char" where
  "ascii_lower_char c =
     (let n = (of_char c :: nat) in if 65 \<le> n \<and> n \<le> 90 then char_of (n + 32) else c)"

definition ascii_lower :: "string \<Rightarrow> string" where
  "ascii_lower s = map ascii_lower_char s"

definition ascii_space :: "char \<Rightarrow> bool" where
  "ascii_space c =
     (let n = (of_char c :: nat) in (9 \<le> n \<and> n \<le> 13) \<or> (28 \<le> n \<and> n \<le> 32))"

definition ascii_strip :: "string \<Rightarrow> string" where
  "ascii_strip s = rev (dropWhile ascii_space (rev (dropWhile ascii_space s)))"

definition example_fromisoformat :: "string \<Rightarrow> datetime option" where
  "example_fromisoformat str =
     (if str = ''2024-01-01T00:00:00.000100'' then Some (Naive 100)
      else if str = ''2024-01-01T00:00:00.000150'' then Some (Naive 150)
      else if str = ''2024-01-01T00:00:00.000150+00:00'' then Some (Aware 150)
      else None)"

definition example_isoformat :: "datetime \<Rightarrow> string" where
  "example_isoformat t =
     (if t = Naive 100 then ''2024-01-01T00:00:00.000100''
      else if t = Naive 150 then ''2024-01-01T00:00:00.000150''
      else if t = Aware 150 then ''2024-01-01T00:00:00.000150+00:00''
      else ''2024-01-01T00:00:00'')"

definition example_library :: library where
  "example_library =
     \<lparr> lower = ascii_lower, strip = ascii_strip,
       fromisoformat = example_fromisoformat, isoformat = example_isoformat,
       fl_sub = (\<lambda>x y. x - y), fl_add = (\<lambda>x y. x + y), fl_mul = (\<lambda>x y. x * y),
       fl_div = (\<lambda>x y. x / y), fl_pow = (\<lambda>x n. x ^ n),
       fl_radians = (\<lambda>x. x * pi / 180), fl_sin = sin, fl_cos = cos,
       fl_sqrt = sqrt, fl_asin = arcsin \<rparr>"

definition blank_subscription :: "datetime subscription" where
  "blank_subscription =
     \<lparr> doc_id = ''s1'', user_id = ''alice'', scope = Val ''any'', what = Some [],
       sub_where = None, when_start = None, when_end = None, room_id = None,
       chat_id = None, created_at = Some (Naive 0) \<rparr>"

definition blank_message :: message where
  "blank_message =
     \<lparr> msg_user_id = ''bob'', content = Some ''nothing here'', location = None,
       event_time = None, msg_scope = Some ''common'', msg_room_id = None,
       msg_chat_id = None, msg_created_at = None \<rparr>"

definition room_message :: "string \<Rightarrow> message" where
  "room_message r = blank_message \<lparr> msg_scope := Some ''room'', msg_room_id := Some r \<rparr>"

definition room_subscription :: "datetime subscription" where
  "room_subscription = blank_subscription \<lparr> scope := Val ''room'', room_id := Some ''R1'' \<rparr>"

definition window_subscription :: "datetime subscription" where
  "window_subscription =
     blank_subscription \<lparr> when_start := Some (Naive 100), when_end := Some (Naive 200) \<rparr>"

definition timed_message :: "timeval \<Rightarrow> message" where
  "timed_message t = blank_message \<lparr> event_time := Some t \<rparr>"

definition place :: "real \<Rightarrow> real \<Rightarrow> real field \<Rightarrow> location" where
  "place lat lon r = \<lparr> name = Null, latitude = Val lat, longitude = Val lon, radius_km = r \<rparr>"

definition geo_subscription :: "real \<Rightarrow> real \<Rightarrow> real \<Rightarrow> datetime subscription" where
  "geo_subscription lat lon r = blank_subscription \<lparr> sub_where := Some (place lat lon (Val r)) \<rparr>"

definition located_message :: "real \<Rightarrow> real \<Rightarrow> message" where
  "located_message lat lon = blank_message \<lparr> location := Some (place lat lon Null) \<rparr>"


definition urgent_subscription :: "datetime subscription" where
  "urgent_subscription = blank_subscription \<lparr> what := Some [''urgent''] \<rparr>"

definition urgent_message :: message where
  "urgent_message = blank_message \<lparr> content := Some ''This is URGENT now'' \<rparr>"

definition scopeless_subscription :: "datetime subscription" where
  "scopeless_subscription = blank_subscription \<lparr> scope := Missing \<rparr>"

definition unplaced_subscription :: "datetime subscription" where
  "unplaced_subscription =
     blank_subscription \<lparr> sub_where :=
       Some \<lparr> name = Null, latitude = Missing, longitude = Missing, radius_km = Val 10 \<rparr> \<rparr>"

definition example_store :: "datetime subscription list" where
  "example_store = [blank_subscription, room_subscription, urgent_subscription]"

text \<open>
  Two places that are nearly opposite on the globe, their coordinates the floats nearest
  to \<open>57.6653436\<close>, \<open>-43.7275574\<close> and to \<open>-57.6653435\<close>, \<open>136.2724427\<close>; and what the float
  arithmetic of CPython on IEEE 754 doubles gives on the way from them to the argument of
  \<open>asin\<close>, each value written as the fraction that the float is. Elsewhere the arithmetic
  of \<open>float_library\<close> is that of the example library.
\<close>

definition north_lat :: real where "north_lat = 2028918905852747 / 35184372088832"
definition north_lon :: real where "north_lon = - 6154106600389437 / 140737488355328"
definition south_lat :: real where "south_lat = - 8115675609337239 / 140737488355328"
definition south_lon :: real where "south_lon = 2397330164705419 / 17592186044416"

definition float_sub :: "real \<Rightarrow> real \<Rightarrow> real" where
  "float_sub x y =
     (if x = south_lat \<and> y = north_lat then - 4057837808187057 / 35184372088832
      else if x = south_lon \<and> y = north_lon then 6333186979508197 / 35184372088832
      else x - y)"

definition float_radians :: "real \<Rightarrow> real" where
  "float_radians x =
     (if x = - 4057837808187057 / 35184372088832 then - 4532648336945553 / 2251799813685248
      else if x = 6333186979508197 / 35184372088832 then 1768559438989643 / 562949953421312
      else if x = north_lat then 1133162085218921 / 1125899906842624
      else if x = south_lat then - 1133162083253855 / 1125899906842624
      else x * pi / 180)"

definition float_div :: "real \<Rightarrow> real \<Rightarrow> real" where
  "float_div x y = x / y"

definition float_sin :: "real \<Rightarrow> real" where
  "float_sin x =
     (if x = - 4532648336945553 / 4503599627370496 then - 7610529115479173 / 9007199254740992
      else if x = 1768559438989643 / 1125899906842624 then 1
      else sin x)"

definition float_cos :: "real \<Rightarrow> real" where
  "float_cos x =
     (if x = 1133162085218921 / 1125899906842624 then 4817622331924599 / 9007199254740992
      else if x = - 1133162083253855 / 1125899906842624 then 2408811172603739 / 4503599627370496
      else cos x)"

definition float_pow :: "real \<Rightarrow> nat \<Rightarrow> real" where
  "float_pow x n =
     (if x = - 7610529115479173 / 9007199254740992 \<and> n = 2
      then 6430428791399235 / 9007199254740992
      else x ^ n)"

definition float_mul :: "real \<Rightarrow> real \<Rightarrow> real" where
  "float_mul x y =
     (if x = 4817622331924599 / 9007199254740992 \<and> y = 2408811172603739 / 4503599627370496
      then 5153540926683521 / 18014398509481984
      else x * y)"

definition float_add :: "real \<Rightarrow> real \<Rightarrow> real" where
  "float_add x y =
     (if x = 6430428791399235 / 9007199254740992 \<and> y = 5153540926683521 / 18014398509481984
      then 2251799813685249 / 2251799813685248
      else x + y)"

definition float_sqrt :: "real \<Rightarrow> real" where
  "float_sqrt x =
     (if x = 2251799813685249 / 2251799813685248 then 4503599627370497 / 4503599627370496
      else sqrt x)"

definition float_library :: library where
  "float_library =
     example_library \<lparr> fl_sub := float_sub, fl_add := float_add, fl_mul := float_mul,
       fl_div := float_div, fl_pow := float_pow, fl_radians := float_radians,
       fl_sin := float_sin, fl_cos := float_cos, fl_sqrt := float_sqrt \<rparr>"


definition example_rooms :: "nat rooms" where
  "example_rooms = [(''lobby'', [1, 2, 3]), (''attic'', [4])]"

definition example_sessions :: "nat sessions" where
  "example_sessions = [(''s1'', [(''ann'', 1), (''ben'', 2), (''cat'', 3)])]"

definition example_room_ops :: "nat room_op list" where
  "example_room_ops = [Join 1, Join 2, Leave 1, Join 3, Join 1, Leave 2]"

definition example_session_ops :: "nat session_op list" where
  "example_session_ops = [Opens ''ann'' 1, Opens ''ann'' 3, Closes ''ann'' 1]"



definition all_delivered :: "nat \<Rightarrow> outcome" where
  "all_delivered c = Delivered"


definition by_number :: "nat \<Rightarrow> nat" where
  "by_number c = c"


section \<open>Strings: substrings, lower case, trimming\<close>












lemma example_library_simps:
  "lower example_library = ascii_lower"
  "strip example_library = ascii_strip"
  "fromisoformat example_library = example_fromisoformat"
  "isoformat example_library = example_isoformat"
  by (simp_all add: example_library_def)

lemma float_library_simps:
  "lower float_library = ascii_lower"
  "strip float_library = ascii_strip"
  "fromisoformat float_library = example_fromisoformat"
  "isoformat float_library = example_isoformat"
  "fl_sub float_library = float_sub"
  "fl_add float_library = float_add"
  "fl_mul float_library = float_mul"
  "fl_div float_library = float_div"
  "fl_pow float_library = float_pow"
  "fl_radians float_library = float_radians"
  "fl_sin float_library = float_sin"
  "fl_cos float_library = float_cos"
  "fl_sqrt float_library = float_sqrt"
  by (simp_all add: float_library_def example_library_def)





section \<open>The scope predicate\<close>

text \<open>
  Claim C6. The scope predicate passes when the subscription's scope filter is \<open>any\<close>;
  otherwise it fails when the filter differs from the message's scope; a \<open>room\<close> filter
  with a room id also asks for the message's room id to be the same, and a subscription
  with no room id (none, or the empty string) matches any room; the same holds for a
  \<open>p2p\<close> filter and the chat id.
\<close>

theorem match_scope_spec: "match_scope s m = spec_match_scope s m"
  by (cases "scope s") (auto simp: match_scope_def spec_match_scope_def scope_filter_def Let_def)

text \<open>
  The subscription \<open>{scope: room, room_id: R1}\<close> matches a room message of room \<open>R1\<close>, and
  neither one of room \<open>R2\<close> nor a message of the common scope.
\<close>

theorem match_scope_spec_witness:
  "match_scope room_subscription (room_message ''R1'')
   \<and> \<not> match_scope room_subscription (room_message ''R2'')
   \<and> \<not> match_scope room_subscription blank_message
   \<and> match_scope blank_subscription blank_message"
  using match_scope_spec [of room_subscription "room_message ''R1''"]
        match_scope_spec [of room_subscription "room_message ''R2''"]
        match_scope_spec [of room_subscription blank_message]
        match_scope_spec [of blank_subscription blank_message]
  by (simp add: spec_match_scope_def scope_filter_def room_subscription_def room_message_def
        blank_subscription_def blank_message_def)

section \<open>The time predicate\<close>

lemma truthy_time_present: "truthy_time v = present v"
  by (cases v rule: truthy_time.cases) (simp_all add: present_def)

lemma datetime_lt_cases:
  "datetime_lt x y = (if aware x = aware y then Inr (ticks x < ticks y) else Inl TypeError)"
  by (cases x; cases y) simp_all

text \<open>
  What the time predicate gives. With no time, or a string that does not parse, it
  passes. Otherwise the time is compared with the start bound, then with the end bound:
  a comparison of an aware time with a naive bound, or of a naive time with an aware
  bound, raises \<open>TypeError\<close>; a time before the start fails without a look at the end;
  and when both comparisons return, the predicate passes exactly in the window, bounds
  included.
\<close>

lemma match_time_cases:
  "match_time lib s m =
     (case parsed_time lib m of
        None \<Rightarrow> Inr True
      | Some t \<Rightarrow>
          if \<not> comparable t (when_start s) then Inl TypeError
          else if (case when_start s of None \<Rightarrow> False | Some a \<Rightarrow> ticks t < ticks a) then Inr False
          else if \<not> comparable t (when_end s) then Inl TypeError
          else Inr (in_window s t))"
  unfolding match_time_def parsed_time_def message_time_def Let_def truthy_time_present
  by (auto simp: in_window_def present_def comparable_def datetime_lt_cases datetime_gt_def
        not_less
      split: option.splits timeval.splits bool.splits)

lemma match_time_window:
  assumes "parsed_time lib m = Some t"
    and "comparable t (when_start s)" and "comparable t (when_end s)"
  shows "match_time lib s m = Inr (in_window s t)"
  using assms by (auto simp: match_time_cases in_window_def split: option.splits)

lemma match_time_raises:
  assumes "parsed_time lib m = Some t" and "when_start s = Some a" and "aware a \<noteq> aware t"
  shows "match_time lib s m = Inl TypeError"
  using assms by (simp add: match_time_cases comparable_def)

lemma example_window:
  "match_time example_library window_subscription (timed_message (Date (Naive 100))) = Inr True"
  "match_time example_library window_subscription (timed_message (Date (Naive 200))) = Inr True"
  "match_time example_library window_subscription (timed_message (Date (Naive 99))) = Inr False"
  "match_time example_library window_subscription (timed_message (Date (Naive 201))) = Inr False"
  "match_time example_library window_subscription
     (timed_message (Iso ''2024-01-01T00:00:00.000150'')) = Inr True"
  "match_time example_library window_subscription (timed_message (Iso ''yesterday'')) = Inr True"
  "match_time example_library window_subscription blank_message = Inr True"
  by (simp_all add: match_time_def example_library_simps example_fromisoformat_def
        window_subscription_def timed_message_def blank_subscription_def blank_message_def
        datetime_gt_def)

text \<open>
  Claim C4. The claim fails on the code: for a message whose event time carries an offset
  from UTC, and a subscription with a bound, which the store gives back naive, the time
  predicate raises \<open>TypeError\<close> where the claim has it pass or fail by the window. The
  window of the example is from \<open>00:00:00.000100\<close> to \<open>00:00:00.000200\<close>; the event time
  \<open>00:00:00.000150\<close> passes without an offset and raises with the offset \<open>+00:00\<close>.
\<close>

theorem match_time_aware_raises:
  "match_time example_library window_subscription
     (timed_message (Iso ''2024-01-01T00:00:00.000150+00:00'')) = Inl TypeError
   \<and> match_time example_library window_subscription
       (timed_message (Iso ''2024-01-01T00:00:00.000150'')) = Inr True
   \<and> fromisoformat example_library ''2024-01-01T00:00:00.000150+00:00'' = Some (Aware 150)
   \<and> when_start window_subscription = Some (Naive 100)"
  by (simp add: match_time_def example_library_simps example_fromisoformat_def
        window_subscription_def timed_message_def blank_subscription_def blank_message_def
        datetime_gt_def)

section \<open>The location predicate\<close>

text \<open>
  What the location predicate gives when no key is missing: it passes with no filter,
  fails with a filter and no location of the message, passes when the radius is absent,
  zero or negative, and otherwise gives what the distance function gives, compared with
  the radius; an exception of the distance function is an exception of the predicate.
\<close>

lemma match_location_cases:
  "(\<not> truthy_dict (sub_where s) \<longrightarrow> match_location lib s m = Inr True)
   \<and> (truthy_dict (sub_where s) \<and> \<not> truthy_dict (location m) \<longrightarrow>
        match_location lib s m = Inr False)
   \<and> (truthy_dict (sub_where s) \<and> truthy_dict (location m) \<and> sub_where s = Some f
        \<and> (get (radius_km f) = None \<or> (\<exists>r. radius_km f = Val r \<and> r \<le> 0))
      \<longrightarrow> match_location lib s m = Inr True)
   \<and> (sub_where s = Some f \<and> location m = Some l \<and> radius_km f = Val r \<and> 0 < r
        \<and> latitude f = Val lat1 \<and> longitude f = Val lon1
        \<and> latitude l = Val lat2 \<and> longitude l = Val lon2
      \<longrightarrow> match_location lib s m =
            (case haversine_distance lib lat1 lon1 lat2 lon2 of
               Inl e \<Rightarrow> Inl e
             | Inr distance \<Rightarrow> Inr (distance \<le> r)))"
proof (intro conjI impI)
  show "match_location lib s m = Inr True" if "\<not> truthy_dict (sub_where s)"
    using that by (simp add: match_location_def)
  show "match_location lib s m = Inr False"
    if "truthy_dict (sub_where s) \<and> \<not> truthy_dict (location m)"
    using that by (simp add: match_location_def)
  show "match_location lib s m = Inr True"
    if "truthy_dict (sub_where s) \<and> truthy_dict (location m) \<and> sub_where s = Some f
        \<and> (get (radius_km f) = None \<or> (\<exists>r. radius_km f = Val r \<and> r \<le> 0))"
    using that by (auto simp: match_location_def Let_def)
  show "match_location lib s m =
          (case haversine_distance lib lat1 lon1 lat2 lon2 of
             Inl e \<Rightarrow> Inl e
           | Inr distance \<Rightarrow> Inr (distance \<le> r))"
    if "sub_where s = Some f \<and> location m = Some l \<and> radius_km f = Val r \<and> 0 < r
        \<and> latitude f = Val lat1 \<and> longitude f = Val lon1
        \<and> latitude l = Val lat2 \<and> longitude l = Val lon2"
    using that by (auto simp: match_location_def Let_def empty_dict_def haversine_call_def)
qed

text \<open>
  With the arithmetic of the real numbers the distance function never raises, and along
  the equator the distance is the arc of the difference in longitude.
\<close>

lemma haversine_equator:
  assumes "0 \<le> d" and "d \<le> 180"
  shows "haversine_distance example_library 0 0 0 d = Inr (6371 * (d * pi / 180))"
proof -
  define x where "x = d * pi / 360"
  have x0: "0 \<le> x" using assms by (simp add: x_def)
  have "d * pi \<le> 180 * pi" using assms by simp
  then have x1: "x \<le> pi / 2" by (simp add: x_def)
  have s0: "0 \<le> sin x" using x0 x1 by (intro sin_ge_zero) (auto intro: order_trans)
  then have "sqrt ((sin x)\<^sup>2) = sin x" by simp
  moreover have "arcsin (sin x) = x" using x0 x1 by (intro arcsin_sin) auto
  ultimately have "2 * arcsin (sqrt ((sin x)\<^sup>2)) = 2 * x" by simp
  moreover have "\<not> 1 < sin x" by (simp add: not_less)
  ultimately show ?thesis using s0
    by (simp add: haversine_distance_def math_sqrt_def math_asin_def example_library_def
          EARTH_RADIUS_KM_def Let_def x_def)
qed

lemma float_argument:
  "fl_add float_library
     (fl_pow float_library
        (fl_sin float_library
           (fl_div float_library
              (fl_radians float_library (fl_sub float_library south_lat north_lat)) 2)) 2)
     (fl_mul float_library
        (fl_mul float_library
           (fl_cos float_library (fl_radians float_library north_lat))
           (fl_cos float_library (fl_radians float_library south_lat)))
        (fl_pow float_library
           (fl_sin float_library
              (fl_div float_library
                 (fl_radians float_library (fl_sub float_library south_lon north_lon)) 2)) 2))
   = 2251799813685249 / 2251799813685248"
proof -
  have a: "fl_sub float_library south_lat north_lat = - 4057837808187057 / 35184372088832"
    "fl_sub float_library south_lon north_lon = 6333186979508197 / 35184372088832"
    by (simp_all add: float_library_simps float_sub_def south_lat_def north_lat_def
          south_lon_def north_lon_def)
  have b: "fl_radians float_library (- 4057837808187057 / 35184372088832)
             = - 4532648336945553 / 2251799813685248"
    "fl_radians float_library (6333186979508197 / 35184372088832)
             = 1768559438989643 / 562949953421312"
    "fl_radians float_library north_lat = 1133162085218921 / 1125899906842624"
    "fl_radians float_library south_lat = - 1133162083253855 / 1125899906842624"
    by (simp_all add: float_library_simps float_radians_def south_lat_def north_lat_def)
  have c: "fl_div float_library (- 4532648336945553 / 2251799813685248) 2
             = - 4532648336945553 / 4503599627370496"
    "fl_div float_library (1768559438989643 / 562949953421312) 2
             = 1768559438989643 / 1125899906842624"
    by (simp_all add: float_library_simps float_div_def)
  have d: "fl_sin float_library (- 4532648336945553 / 4503599627370496)
             = - 7610529115479173 / 9007199254740992"
    "fl_sin float_library (1768559438989643 / 1125899906842624) = 1"
    by (simp_all add: float_library_simps float_sin_def)
  have e: "fl_pow float_library (- 7610529115479173 / 9007199254740992) 2
             = 6430428791399235 / 9007199254740992"
    "fl_pow float_library 1 2 = 1"
    by (simp_all add: float_library_simps float_pow_def)
  have f: "fl_cos float_library (1133162085218921 / 1125899906842624)
             = 4817622331924599 / 9007199254740992"
    "fl_cos float_library (- 1133162083253855 / 1125899906842624)
             = 2408811172603739 / 4503599627370496"
    by (simp_all add: float_library_simps float_cos_def)
  have g: "fl_mul float_library (4817622331924599 / 9007199254740992)
             (2408811172603739 / 4503599627370496) = 5153540926683521 / 18014398509481984"
    "fl_mul float_library (5153540926683521 / 18014398509481984) 1
             = 5153540926683521 / 18014398509481984"
    by (simp_all add: float_library_simps float_mul_def)
  have h: "fl_add float_library (6430428791399235 / 9007199254740992)
             (5153540926683521 / 18014398509481984) = 2251799813685249 / 2251799813685248"
    by (simp add: float_library_simps float_add_def)
  show ?thesis by (simp only: a b c d e f g h)
qed

lemma float_distance:
  "haversine_distance float_library north_lat north_lon south_lat south_lon = Inl ValueError"
proof -
  have "math_sqrt float_library (2251799813685249 / 2251799813685248)
          = Inr (4503599627370497 / 4503599627370496)"
    by (simp add: math_sqrt_def float_library_simps float_sqrt_def)
  moreover have "math_asin float_library (4503599627370497 / 4503599627370496) = Inl ValueError"
    by (simp add: math_asin_def)
  ultimately show ?thesis
    unfolding haversine_distance_def Let_def float_argument by simp
qed

text \<open>
  Claim C5. The claim fails on the code: for a filter with a positive radius and a message
  located nearly opposite on the globe, both with coordinates that the schema takes, the
  float arithmetic gives \<open>asin\<close> an argument above 1, \<open>asin\<close> raises \<open>ValueError\<close>, and so
  does the location predicate, where the claim has it fail (the places are 20015 km
  apart and the radius is 5 km).
\<close>

theorem match_location_opposite_raises:
  "match_location float_library (geo_subscription north_lat north_lon 5)
     (located_message south_lat south_lon) = Inl ValueError
   \<and> haversine_distance float_library north_lat north_lon south_lat south_lon = Inl ValueError
   \<and> - 90 \<le> north_lat \<and> north_lat \<le> 90 \<and> - 180 \<le> north_lon \<and> north_lon \<le> 180
   \<and> - 90 \<le> south_lat \<and> south_lat \<le> 90 \<and> - 180 \<le> south_lon \<and> south_lon \<le> 180"
proof -
  have "match_location float_library (geo_subscription north_lat north_lon 5)
          (located_message south_lat south_lon) = Inl ValueError"
    by (simp add: match_location_def geo_subscription_def located_message_def place_def
          blank_subscription_def blank_message_def empty_dict_def haversine_call_def
          float_distance)
  moreover have "- 90 \<le> north_lat \<and> north_lat \<le> 90 \<and> - 180 \<le> north_lon \<and> north_lon \<le> 180
    \<and> - 90 \<le> south_lat \<and> south_lat \<le> 90 \<and> - 180 \<le> south_lon \<and> south_lon \<le> 180"
    by (simp add: north_lat_def north_lon_def south_lat_def south_lon_def)
  ultimately show ?thesis by (simp add: float_distance)
qed

section \<open>The keyword predicate\<close>



lemma example_keywords:
  "match_keywords example_library blank_subscription m"
  "match_keywords example_library window_subscription m"
  "match_keywords example_library unplaced_subscription m"
  "match_keywords example_library scopeless_subscription m"
  "match_keywords example_library urgent_subscription urgent_message"
  "\<not> match_keywords example_library urgent_subscription blank_message"
  "match_keywords example_library room_subscription m"
proof -
  have "str_in ''urgent'' (ascii_lower ''This is URGENT now'')"
    "\<not> str_in ''urgent'' (ascii_lower ''nothing here'')"
    by code_simp+
  then show "match_keywords example_library urgent_subscription urgent_message"
    and "\<not> match_keywords example_library urgent_subscription blank_message"
    by (simp_all add: match_keywords_def urgent_subscription_def urgent_message_def
          blank_subscription_def blank_message_def example_library_simps)
qed (simp_all add: match_keywords_def blank_subscription_def window_subscription_def
       unplaced_subscription_def scopeless_subscription_def room_subscription_def)


section \<open>The dispatch pass\<close>

lemma selected_if_scope:
  assumes "scope s \<noteq> Missing" and "match_scope s m"
  shows "list_ex (satisfies s) (candidate_query m)"
proof (cases "scope s")
  case Missing
  with assms show ?thesis by simp
next
  case Null
  with assms(2) have "msg_scope m = None"
    by (auto simp: match_scope_def Let_def split: if_splits)
  with Null show ?thesis
    by (simp add: candidate_query_def satisfies_def doc_field_def Let_def)
next
  case (Val x)
  with assms(2) have "x = ''any'' \<or> msg_scope m = Some x"
    by (auto simp: match_scope_def Let_def split: if_splits)
  with Val show ?thesis
    by (auto simp: candidate_query_def satisfies_def doc_field_def Let_def)
qed

lemma not_selected_if_scopeless:
  assumes "scope s = Missing" and "msg_scope m \<noteq> None"
  shows "\<not> list_ex (satisfies s) (candidate_query m)"
  using assms by (auto simp: candidate_query_def satisfies_def doc_field_def Let_def)

lemma matches_no_scope: "\<not> match_scope s m \<Longrightarrow> matches lib s m = Inr False"
  by (simp add: matches_def)

lemma matches_True_iff:
  "matches lib s m = Inr True \<longleftrightarrow>
     match_scope s m \<and> match_keywords lib s m \<and> match_location lib s m = Inr True
     \<and> match_time lib s m = Inr True"
  by (auto simp: matches_def split: sum.splits bool.splits)

lemma scan_filter:
  assumes "\<forall>s\<in>set xs. \<not> P s \<longrightarrow> matches lib s m = Inr False"
  shows "scan lib (filter P xs) m found = scan lib xs m found"
  using assms by (induction xs arbitrary: found) (auto split: sum.splits bool.splits)

lemma scan_step:
  "scan lib (a # xs) m found =
     (if is_error (matches lib a m)
      then Inl (projl (matches lib a m))
      else scan lib xs m
             (if matches lib a m = Inr True then found @ [serialise lib a] else found))"
  by (auto simp: is_error_def split: sum.splits bool.splits)

lemma scan_result:
  "scan lib xs m found = Inr out \<Longrightarrow>
     out = found @ map (serialise lib) (filter (\<lambda>s. matches lib s m = Inr True) xs)"
proof (induction xs arbitrary: found)
  case Nil
  then show ?case by simp
next
  case (Cons a xs)
  from Cons.prems have ne: "\<not> is_error (matches lib a m)"
    by (auto simp: scan_step simp del: scan.simps split: if_splits)
  show ?case
  proof (cases "matches lib a m = Inr True")
    case True
    with Cons.prems ne
    have "scan lib xs m (found @ [serialise lib a]) = Inr out"
      by (simp add: scan_step del: scan.simps)
    from Cons.IH [OF this] True show ?thesis by simp
  next
    case False
    with Cons.prems ne have "scan lib xs m found = Inr out"
      by (simp add: scan_step del: scan.simps)
    from Cons.IH [OF this] False show ?thesis by simp
  qed
qed

lemma scan_total:
  "\<forall>s\<in>set xs. \<not> is_error (matches lib s m) \<Longrightarrow> \<not> is_error (scan lib xs m found)"
proof (induction xs arbitrary: found)
  case Nil
  then show ?case by (simp add: is_error_def)
next
  case (Cons a xs)
  then show ?case by (simp add: scan_step del: scan.simps)
qed

lemma scan_error:
  "is_error (matches lib s m) \<Longrightarrow> is_error (scan lib (xs @ s # ys) m found)"
proof (induction xs arbitrary: found)
  case Nil
  then show ?case by (simp add: scan_step is_error_def del: scan.simps)
next
  case (Cons a xs)
  then show ?case by (simp add: scan_step is_error_def del: scan.simps)
qed

lemma created_scope: "create_subscription lib oid now p = Inr s \<Longrightarrow> scope s \<noteq> Missing"
  by (auto simp: create_subscription_def split: field.splits)

lemma find_docs_drop:
  "\<not> list_ex (satisfies s) q \<Longrightarrow> find_docs q (pre @ s # post) = find_docs q (pre @ post)"
  by (simp add: find_docs_def)

text \<open>
  What the pass gives on a store whose documents all have a \<open>scope\<close> key, as every
  document that \<open>create_subscription\<close> writes has: the candidate query selects every
  subscription that passes the four predicates; the pass gives what the loop over the
  whole store gives; a list that it returns is made of the stored subscriptions, in the
  order of the store, for which the four predicates hold; and it returns a list when no
  predicate raises.
\<close>

lemma find_matching_subscriptions_result:
  assumes "\<forall>s\<in>set store. scope s \<noteq> Missing"
  shows "(\<forall>s\<in>set store. matches lib s m = Inr True \<longrightarrow>
            s \<in> set (find_docs (candidate_query m) store))
         \<and> find_matching_subscriptions lib store m = scan lib store m []
         \<and> (\<forall>out. find_matching_subscriptions lib store m = Inr out \<longrightarrow>
               out = map (serialise lib)
                       (filter (\<lambda>s. match_scope s m \<and> match_keywords lib s m
                                     \<and> match_location lib s m = Inr True
                                     \<and> match_time lib s m = Inr True)
                          store))
         \<and> ((\<forall>s\<in>set store. \<not> is_error (matches lib s m)) \<longrightarrow>
               \<not> is_error (find_matching_subscriptions lib store m))"
proof -
  have sel: "list_ex (satisfies s) (candidate_query m)"
    if "s \<in> set store" and "match_scope s m" for s
    using that assms selected_if_scope by blast
  have drop: "\<forall>s\<in>set store. \<not> list_ex (satisfies s) (candidate_query m)
                \<longrightarrow> matches lib s m = Inr False"
    using sel matches_no_scope by blast
  have a: "\<forall>s\<in>set store. matches lib s m = Inr True \<longrightarrow>
            s \<in> set (find_docs (candidate_query m) store)"
    using sel by (auto simp: find_docs_def matches_True_iff)
  have b: "find_matching_subscriptions lib store m = scan lib store m []"
    unfolding find_matching_subscriptions_def find_docs_def using drop by (rule scan_filter)
  have c: "\<forall>out. find_matching_subscriptions lib store m = Inr out \<longrightarrow>
               out = map (serialise lib)
                       (filter (\<lambda>s. match_scope s m \<and> match_keywords lib s m
                                     \<and> match_location lib s m = Inr True
                                     \<and> match_time lib s m = Inr True)
                          store)"
    using scan_result [of lib store m "[]"]
    by (simp add: b matches_True_iff)
  have d: "(\<forall>s\<in>set store. \<not> is_error (matches lib s m)) \<longrightarrow>
               \<not> is_error (find_matching_subscriptions lib store m)"
    using scan_total [of store lib m "[]"] by (simp add: b)
  from a b c d show ?thesis by blast
qed

lemma example_scopes:
  "match_scope blank_subscription urgent_message"
  "\<not> match_scope room_subscription urgent_message"
  "match_scope urgent_subscription urgent_message"
  "match_scope blank_subscription (located_message x y)"
  "match_scope unplaced_subscription (located_message x y)"
  "match_scope scopeless_subscription blank_message"
  "match_scope blank_subscription (timed_message t)"
  "match_scope window_subscription (timed_message t)"
  by (simp_all add: match_scope_def blank_subscription_def room_subscription_def
        urgent_subscription_def urgent_message_def blank_message_def located_message_def
        unplaced_subscription_def scopeless_subscription_def window_subscription_def
        timed_message_def)

lemma example_locations:
  "match_location lib blank_subscription m = Inr True"
  "match_location lib urgent_subscription m = Inr True"
  "match_location lib window_subscription m = Inr True"
  "match_location lib scopeless_subscription m = Inr True"
  "match_location lib unplaced_subscription (located_message x y) = Inl (KeyError ''latitude'')"
  "match_location lib unplaced_subscription blank_message = Inr False"
  by (simp_all add: match_location_def blank_subscription_def urgent_subscription_def
        unplaced_subscription_def scopeless_subscription_def window_subscription_def
        located_message_def blank_message_def place_def empty_dict_def)

lemma example_times:
  "match_time lib blank_subscription urgent_message = Inr True"
  "match_time lib urgent_subscription urgent_message = Inr True"
  "match_time lib blank_subscription (located_message x y) = Inr True"
  "match_time lib scopeless_subscription blank_message = Inr True"
  "match_time example_library blank_subscription (timed_message (Iso str)) = Inr True"
  by (simp_all add: match_time_def blank_subscription_def urgent_subscription_def
        scopeless_subscription_def urgent_message_def blank_message_def located_message_def
        timed_message_def split: option.splits)

lemma example_matches:
  "matches example_library blank_subscription urgent_message = Inr True"
  "matches example_library room_subscription urgent_message = Inr False"
  "matches example_library urgent_subscription urgent_message = Inr True"
  "matches example_library blank_subscription (located_message x y) = Inr True"
  "matches example_library unplaced_subscription (located_message x y) = Inl (KeyError ''latitude'')"
  "matches example_library scopeless_subscription blank_message = Inr True"
  "matches example_library blank_subscription (timed_message (Iso str)) = Inr True"
  "matches example_library window_subscription
     (timed_message (Iso ''2024-01-01T00:00:00.000150'')) = Inr True"
  "matches example_library window_subscription
     (timed_message (Iso ''2024-01-01T00:00:00.000150+00:00'')) = Inl TypeError"
  by (simp_all add: matches_def example_scopes example_keywords example_locations example_times
        example_window)
     (simp add: match_time_def example_library_simps example_fromisoformat_def
        window_subscription_def timed_message_def blank_subscription_def blank_message_def)

lemma example_selection:
  "find_docs (candidate_query blank_message) [scopeless_subscription] = []"
  "find_docs (candidate_query (located_message x y)) [unplaced_subscription, blank_subscription]
     = [unplaced_subscription, blank_subscription]"
  "find_docs (candidate_query (located_message x y)) [blank_subscription] = [blank_subscription]"
  "find_docs (candidate_query (timed_message t)) [window_subscription, blank_subscription]
     = [window_subscription, blank_subscription]"
  "find_docs (candidate_query urgent_message) example_store
     = [blank_subscription, urgent_subscription]"
  by (simp_all add: find_docs_def candidate_query_def satisfies_def doc_field_def
        blank_message_def located_message_def scopeless_subscription_def timed_message_def
        unplaced_subscription_def blank_subscription_def window_subscription_def
        example_store_def room_subscription_def urgent_subscription_def urgent_message_def)

lemma example_pass:
  "find_matching_subscriptions example_library example_store urgent_message
     = Inr [serialise example_library blank_subscription,
            serialise example_library urgent_subscription]"
  by (simp add: find_matching_subscriptions_def example_selection example_matches)

text \<open>
  Claim C1. The claim fails on the code: for a message whose event time carries an offset
  from UTC and a store that holds a subscription with a time bound, the time predicate
  raises \<open>TypeError\<close> and \<open>find_matching_subscriptions\<close> raises with it. It returns
  nothing: not the subscription with no filter, stored behind, for which the four
  predicates hold. For the same event time without the offset it returns both.
\<close>

theorem find_matching_subscriptions_raises:
  "find_matching_subscriptions example_library [window_subscription, blank_subscription]
     (timed_message (Iso ''2024-01-01T00:00:00.000150+00:00'')) = Inl TypeError
   \<and> matches example_library blank_subscription
       (timed_message (Iso ''2024-01-01T00:00:00.000150+00:00'')) = Inr True
   \<and> find_matching_subscriptions example_library [window_subscription, blank_subscription]
       (timed_message (Iso ''2024-01-01T00:00:00.000150''))
       = Inr [serialise example_library window_subscription,
              serialise example_library blank_subscription]"
  by (simp add: find_matching_subscriptions_def example_selection example_matches)

text \<open>
  Claim C2, as stated, fails: a location filter with a positive radius and no latitude
  makes the location predicate raise \<open>KeyError\<close> on a message that has a location, the
  exception ends \<open>find_matching_subscriptions\<close>, and the subscription stored after it,
  which matches, is not returned; a subscription with no \<open>scope\<close> key passes the scope
  predicate.
\<close>

theorem unplaced_subscription_aborts:
  "match_location example_library unplaced_subscription (located_message 0 1)
       = Inl (KeyError ''latitude'')
   \<and> find_matching_subscriptions example_library
        [unplaced_subscription, blank_subscription] (located_message 0 1)
       = Inl (KeyError ''latitude'')
   \<and> find_matching_subscriptions example_library [blank_subscription] (located_message 0 1)
       = Inr [serialise example_library blank_subscription]
   \<and> match_scope scopeless_subscription blank_message"
  by (simp add: example_matches example_selection example_locations example_scopes
        find_matching_subscriptions_def)

text \<open>
  Claim C2, amended. A subscription with no \<open>scope\<close> key passes the scope predicate; for
  a message that has a scope the candidate query does not select it, so that
  \<open>find_matching_subscriptions\<close> gives what it gives on the store without it. A
  subscription whose location filter asks for a distance and lacks a coordinate is not
  matched by a message with no location; on a message that has one the location predicate
  raises \<open>KeyError\<close>; and a subscription with a \<open>scope\<close> key for which the predicates
  raise makes \<open>find_matching_subscriptions\<close> raise, whatever is stored before and after
  it.
\<close>

theorem malformed_subscription:
  "(scope s = Missing \<longrightarrow> match_scope s m)
   \<and> (scope s = Missing \<and> msg_scope m \<noteq> None \<longrightarrow>
        find_matching_subscriptions lib (pre @ s # post) m =
        find_matching_subscriptions lib (pre @ post) m)
   \<and> (lacks_coordinate s \<and> \<not> truthy_dict (location m) \<longrightarrow> match_location lib s m = Inr False)
   \<and> (lacks_coordinate s \<and> truthy_dict (location m) \<longrightarrow>
        match_location lib s m = Inl (KeyError ''latitude'')
        \<or> match_location lib s m = Inl (KeyError ''longitude''))
   \<and> (scope s \<noteq> Missing \<and> is_error (matches lib s m) \<longrightarrow>
        is_error (find_matching_subscriptions lib (pre @ s # post) m))"
proof (intro conjI impI)
  show "match_scope s m" if "scope s = Missing"
    using that by (simp add: match_scope_def)
  show "find_matching_subscriptions lib (pre @ s # post) m =
        find_matching_subscriptions lib (pre @ post) m"
    if "scope s = Missing \<and> msg_scope m \<noteq> None"
    using that not_selected_if_scopeless [of s m]
    by (simp add: find_matching_subscriptions_def find_docs_drop)
  show "match_location lib s m = Inr False"
    if "lacks_coordinate s \<and> \<not> truthy_dict (location m)"
    using that
    by (auto simp: lacks_coordinate_def match_location_def empty_dict_def Let_def
             split: option.splits field.splits)
  show "match_location lib s m = Inl (KeyError ''latitude'')
        \<or> match_location lib s m = Inl (KeyError ''longitude'')"
    if "lacks_coordinate s \<and> truthy_dict (location m)"
    using that
    by (cases "latitude (the (sub_where s))")
       (auto simp: lacks_coordinate_def match_location_def empty_dict_def Let_def
             split: option.splits field.splits)
  show "is_error (find_matching_subscriptions lib (pre @ s # post) m)"
    if h: "scope s \<noteq> Missing \<and> is_error (matches lib s m)"
  proof -
    from h have "match_scope s m" by (auto simp: matches_def is_error_def split: if_splits)
    with h have "list_ex (satisfies s) (candidate_query m)" by (simp add: selected_if_scope)
    then have "find_docs (candidate_query m) (pre @ s # post) =
                 find_docs (candidate_query m) pre @ s # find_docs (candidate_query m) post"
      by (simp add: find_docs_def)
    with h show ?thesis by (simp add: find_matching_subscriptions_def scan_error)
  qed
qed

text \<open>
  The subscription with no \<open>scope\<close> key is left out of the pass over three
  subscriptions; the one with no coordinates is refused on a message with no location
  and ends the pass on a message at \<open>(0, 1)\<close>.
\<close>

theorem malformed_subscription_witness:
  "scope scopeless_subscription = Missing \<and> msg_scope blank_message \<noteq> None
   \<and> match_scope scopeless_subscription blank_message
   \<and> find_matching_subscriptions example_library
        ([blank_subscription] @ scopeless_subscription # [urgent_subscription]) blank_message
       = find_matching_subscriptions example_library
        ([blank_subscription] @ [urgent_subscription]) blank_message
   \<and> lacks_coordinate unplaced_subscription
   \<and> \<not> truthy_dict (location blank_message)
   \<and> match_location example_library unplaced_subscription blank_message = Inr False
   \<and> truthy_dict (location (located_message 0 1))
   \<and> match_location example_library unplaced_subscription (located_message 0 1)
       = Inl (KeyError ''latitude'')
   \<and> scope unplaced_subscription \<noteq> Missing
   \<and> is_error (matches example_library unplaced_subscription (located_message 0 1))
   \<and> is_error (find_matching_subscriptions example_library
        ([blank_subscription] @ unplaced_subscription # [urgent_subscription])
        (located_message 0 1))"
proof -
  have f: "scope scopeless_subscription = Missing" "msg_scope blank_message \<noteq> None"
    "lacks_coordinate unplaced_subscription" "\<not> truthy_dict (location blank_message)"
    "truthy_dict (location (located_message 0 1))" "scope unplaced_subscription \<noteq> Missing"
    by (simp_all add: scopeless_subscription_def blank_message_def blank_subscription_def
          unplaced_subscription_def lacks_coordinate_def located_message_def place_def
          empty_dict_def)
  have e: "is_error (matches example_library unplaced_subscription (located_message 0 1))"
    by (simp add: example_matches is_error_def)
  show ?thesis
    using malformed_subscription [of scopeless_subscription blank_message example_library
            "[blank_subscription]" "[urgent_subscription]"]
          malformed_subscription [of unplaced_subscription blank_message example_library
            "[blank_subscription]" "[urgent_subscription]"]
          malformed_subscription [of unplaced_subscription "located_message 0 1" example_library
            "[blank_subscription]" "[urgent_subscription]"]
          f e example_locations(5) [of example_library 0 1]
    by simp
qed

section \<open>Dictionaries with a default\<close>

lemma default_modify:
  "(case default_getitem dflt d k of (d', v) \<Rightarrow> AList.update k (f v) d') =
     AList.update k (f (get_or d k dflt)) d"
proof (cases "map_of d k")
  case None
  then have "k \<notin> fst ` set d" by (simp add: map_of_eq_None_iff)
  then have "AList.update k x (d @ [(k, y)]) = AList.update k x d" for x y
    by (induction d) auto
  with None show ?thesis by (simp add: default_getitem_def get_or_def)
next
  case (Some v)
  then show ?thesis by (simp add: default_getitem_def get_or_def)
qed

lemma default_getitem_snd: "snd (default_getitem dflt d k) = get_or d k dflt"
  by (simp add: default_getitem_def get_or_def split: option.splits)

lemma get_or_update: "get_or (AList.update k v d) k' dflt = (if k' = k then v else get_or d k' dflt)"
  by (simp add: get_or_def update_conv')

lemma get_or_delete:
  "get_or (AList.delete k d) k' dflt = (if k' = k then dflt else get_or d k' dflt)"
  by (simp add: get_or_def delete_conv')



lemma discard_filter: "discard x xs = filter (\<lambda>y. y \<noteq> x) xs"
  by (induction xs) (auto simp: discard_def)


lemma not_contains_key_get_or: "\<not> contains_key k d \<Longrightarrow> get_or d k dflt = dflt"
  by (auto simp: contains_key_def get_or_def)

lemma default_getitem_present:
  "contains_key k d \<Longrightarrow> default_getitem dflt d k = (d, get_or d k dflt)"
  by (auto simp: contains_key_def default_getitem_def get_or_def)

section \<open>Snapshots and the handles tried\<close>







lemma tried_subset: "set (tried send_json cs) \<subseteq> set cs"
  by (induction cs) auto



section \<open>Notifications of a user\<close>








section \<open>Broadcasts\<close>














lemma send_loop_sent:
  "fst (snd (P2PConnectionManager_send_loop send_json session_id exclude_set items (sessions, sent)))
     = sent @ map snd (tried (\<lambda>p. send_json (snd p)) (filter (\<lambda>p. fst p \<notin> set exclude_set) items))"
proof (induction items arbitrary: sessions sent)
  case Nil
  then show ?case by simp
next
  case (Cons p items)
  obtain user connection where p: "p = (user, connection)" by (cases p)
  show ?case
    unfolding p using Cons.IH
    by (cases "send_json connection") simp_all
qed








section \<open>The sender and the broadcast\<close>

lemma send_skips_excluded:
  "set (fst (snd (P2PConnectionManager_send send_json session_id (Some exclude) sessions)))
     \<subseteq> snd ` {p \<in> set (get_or sessions session_id []). fst p \<notin> set exclude}"
proof -
  have "set (tried f xs) \<subseteq> set xs" for f :: "string \<times> 'a \<Rightarrow> outcome" and xs
    by (rule tried_subset)
  then show ?thesis
    by (fastforce simp: P2PConnectionManager_send_def send_loop_sent)
qed

lemma p2p_connect_members:
  "get_or (P2PConnectionManager_connect session_id user ws sessions) session_id []
     = AList.update user ws (get_or sessions session_id [])"
  by (simp add: P2PConnectionManager_connect_def default_modify get_or_update
           del: AList.update.simps)

text \<open>
  Claim C3. The claim fails on the code, in two places. A connection that opens on the
  path of \<open>dan\<close> and sends a message that names \<open>ben\<close> as its user gets its own message:
  \<open>send\<close> leaves out the handle of \<open>ben\<close> and calls the handle 9 of the sender. (When the
  message names \<open>dan\<close>, the handle 9 is left out.) And a message received on the path of a
  room is not broadcast at all: the endpoint raises \<open>AttributeError\<close> before it reaches the
  broadcast, so that the sender's connection, like every other of the room, receives
  nothing. A message of the common scope is sent to every connection, the sender's
  included.
\<close>

theorem sender_gets_own_message:
  "websocket_p2p_open ''s1'' ''dan'' 9 example_sessions
     = [(''s1'', [(''ann'', 1), (''ben'', 2), (''cat'', 3), (''dan'', 9)])]
   \<and> websocket_p2p_message all_delivered ''s1'' ''dan'' (blank_message \<lparr> msg_user_id := ''ben'' \<rparr>)
       (websocket_p2p_open ''s1'' ''dan'' 9 example_sessions)
     = ([(''s1'', [(''ann'', 1), (''ben'', 2), (''cat'', 3), (''dan'', 9)])], [1, 3, 9], False)
   \<and> websocket_p2p_message all_delivered ''s1'' ''dan'' (blank_message \<lparr> msg_user_id := ''dan'' \<rparr>)
       (websocket_p2p_open ''s1'' ''dan'' 9 example_sessions)
     = ([(''s1'', [(''ann'', 1), (''ben'', 2), (''cat'', 3), (''dan'', 9)])], [1, 2, 3], False)
   \<and> websocket_room_message all_delivered by_number ''lobby'' (room_message ''lobby'')
       (RoomConnectionManager_connect ''lobby'' 5 example_rooms) = Inl AttributeError
   \<and> RoomConnectionManager_connect ''lobby'' 5 example_rooms
     = [(''lobby'', [1, 2, 3, 5]), (''attic'', [4])]
   \<and> websocket_common_message all_delivered by_number blank_message
       (ConnectionManager_connect 5 [1, 2])
     = ([1, 2, 5], [1, 2, 5], False)"
proof -
  have e: "P2PConnectionManager_connect ''s1'' ''dan'' 9 example_sessions
     = [(''s1'', [(''ann'', 1), (''ben'', 2), (''cat'', 3), (''dan'', 9)])]"
    "P2PConnectionManager_send all_delivered ''s1'' (Some [''ben''])
       [(''s1'', [(''ann'', 1), (''ben'', 2), (''cat'', 3), (''dan'', 9 :: nat)])]
     = ([(''s1'', [(''ann'', 1), (''ben'', 2), (''cat'', 3), (''dan'', 9)])], [1, 3, 9], False)"
    "P2PConnectionManager_send all_delivered ''s1'' (Some [''dan''])
       [(''s1'', [(''ann'', 1), (''ben'', 2), (''cat'', 3), (''dan'', 9 :: nat)])]
     = ([(''s1'', [(''ann'', 1), (''ben'', 2), (''cat'', 3), (''dan'', 9)])], [1, 2, 3], False)"
    "RoomConnectionManager_connect ''lobby'' 5 example_rooms
     = [(''lobby'', [1, 2, 3, 5]), (''attic'', [4])]"
    "ConnectionManager_broadcast all_delivered by_number (ConnectionManager_connect 5 [1, 2])
     = ([1, 2, 5], [1, 2, 5], False)"
    by code_simp+
  then show ?thesis
    by (simp add: websocket_p2p_open_def websocket_p2p_message_def websocket_room_message_def
          websocket_common_message_def)
qed

section \<open>Replaying joins and leaves\<close>

lemma room_connect_members:
  "get_or (RoomConnectionManager_connect room ws rooms) room [] = set_add ws (get_or rooms room [])"
  by (simp add: RoomConnectionManager_connect_def default_modify get_or_update
           del: AList.update.simps)

lemma room_disconnect_members:
  "set (get_or (RoomConnectionManager_disconnect room ws rooms) room [])
     = set (get_or rooms room []) - {ws}"
proof (cases "contains_key room rooms")
  case True
  then show ?thesis
    by (auto simp: RoomConnectionManager_disconnect_def default_getitem_present
          default_getitem_snd get_or_update get_or_delete Let_def discard_filter
          filter_empty_conv
        simp del: AList.update.simps)
next
  case False
  then show ?thesis
    by (simp add: RoomConnectionManager_disconnect_def not_contains_key_get_or)
qed

lemma joined_not_left_snoc:
  "h \<in> joined_not_left (ops @ [x]) \<longleftrightarrow> x = Join h \<or> (h \<in> joined_not_left ops \<and> x \<noteq> Leave h)"
proof
  assume "h \<in> joined_not_left (ops @ [x])"
  then obtain pre post where e: "ops @ [x] = pre @ Join h # post" and n: "Leave h \<notin> set post"
    by (auto simp: joined_not_left_def)
  show "x = Join h \<or> (h \<in> joined_not_left ops \<and> x \<noteq> Leave h)"
  proof (cases post rule: rev_cases)
    case Nil
    with e show ?thesis by simp
  next
    case (snoc post' y)
    with e have "ops = pre @ Join h # post'" and "y = x" by simp_all
    moreover from snoc n have "Leave h \<notin> set post'" and "y \<noteq> Leave h" by auto
    ultimately show ?thesis by (auto simp: joined_not_left_def)
  qed
next
  assume "x = Join h \<or> (h \<in> joined_not_left ops \<and> x \<noteq> Leave h)"
  then show "h \<in> joined_not_left (ops @ [x])"
  proof
    assume "x = Join h"
    then have "ops @ [x] = ops @ Join h # []" and "Leave h \<notin> set []" by simp_all
    then show ?thesis unfolding joined_not_left_def by blast
  next
    assume a: "h \<in> joined_not_left ops \<and> x \<noteq> Leave h"
    then obtain pre post where "ops = pre @ Join h # post" and "Leave h \<notin> set post"
      by (auto simp: joined_not_left_def)
    with a have "ops @ [x] = pre @ Join h # (post @ [x])" and "Leave h \<notin> set (post @ [x])"
      by auto
    then show ?thesis unfolding joined_not_left_def by blast
  qed
qed

lemma joined_not_left_Join: "joined_not_left (ops @ [Join h]) = insert h (joined_not_left ops)"
  by (auto simp: joined_not_left_snoc)

lemma joined_not_left_Leave: "joined_not_left (ops @ [Leave h]) = joined_not_left ops - {h}"
  by (auto simp: joined_not_left_snoc)

text \<open>
  In a room, where a leave names the handle, the members after a sequence of joins and
  leaves are the handles joined and not left afterwards.
\<close>

lemma room_replay_members: "set (get_or (room_replay room ops) room []) = joined_not_left ops"
proof (induction ops rule: rev_induct)
  case Nil
  show ?case by (simp add: room_replay_def get_or_def joined_not_left_def)
next
  case (snoc x ops)
  then have ih: "set (get_or (fold (room_step room) ops []) room []) = joined_not_left ops"
    by (simp add: room_replay_def)
  show ?case
  proof (cases x)
    case (Join h)
    with ih show ?thesis
      by (simp add: room_replay_def room_connect_members set_add_def joined_not_left_Join
            insert_absorb)
  next
    case (Leave h)
    with ih show ?thesis
      by (simp add: room_replay_def room_disconnect_members joined_not_left_Leave)
  qed
qed

lemma user_connect_members:
  "get_or (SubscriptionConnectionManager_connect user ws users) user []
     = set_add ws (get_or users user [])"
  by (simp add: SubscriptionConnectionManager_connect_def default_modify get_or_update
           del: AList.update.simps)

lemma user_disconnect_members:
  "set (get_or (SubscriptionConnectionManager_disconnect user ws users) user [])
     = set (get_or users user []) - {ws}"
proof (cases "contains_key user users")
  case True
  then show ?thesis
    by (auto simp: SubscriptionConnectionManager_disconnect_def default_getitem_present
          default_getitem_snd get_or_update get_or_delete Let_def discard_filter
          filter_empty_conv
        simp del: AList.update.simps)
next
  case False
  then show ?thesis
    by (simp add: SubscriptionConnectionManager_disconnect_def not_contains_key_get_or)
qed

text \<open>The same holds for the connections of a user and for the global set.\<close>

lemma user_replay_members: "set (get_or (user_replay user ops) user []) = joined_not_left ops"
proof (induction ops rule: rev_induct)
  case Nil
  show ?case by (simp add: user_replay_def get_or_def joined_not_left_def)
next
  case (snoc x ops)
  then have ih: "set (get_or (fold (user_step user) ops []) user []) = joined_not_left ops"
    by (simp add: user_replay_def)
  show ?case
  proof (cases x)
    case (Join h)
    with ih show ?thesis
      by (simp add: user_replay_def user_connect_members set_add_def joined_not_left_Join
            insert_absorb)
  next
    case (Leave h)
    with ih show ?thesis
      by (simp add: user_replay_def user_disconnect_members joined_not_left_Leave)
  qed
qed

lemma common_replay_members: "set (common_replay ops) = joined_not_left ops"
proof (induction ops rule: rev_induct)
  case Nil
  show ?case by (simp add: common_replay_def joined_not_left_def)
next
  case (snoc x ops)
  then have ih: "set (fold common_step ops []) = joined_not_left ops"
    by (simp add: common_replay_def)
  show ?case
  proof (cases x)
    case (Join h)
    with ih show ?thesis
      by (simp add: common_replay_def ConnectionManager_connect_def set_add_def
            joined_not_left_Join insert_absorb)
  next
    case (Leave h)
    with ih show ?thesis
      by (auto simp: common_replay_def ConnectionManager_disconnect_def discard_filter
            joined_not_left_Leave)
  qed
qed

lemma example_room_replay:
  "get_or (room_replay ''lobby'' example_room_ops) ''lobby'' [] = [3, 1]"
  "room_replay ''lobby'' [Join (1 :: nat), Leave 1] = []"
  by code_simp+

lemma example_session_members: "3 \<in> session_members example_session_ops"
proof -
  have "example_session_ops = [Opens ''ann'' 1] @ Opens ''ann'' 3 # [Closes ''ann'' 1]"
    by (simp add: example_session_ops_def)
  moreover have "Closes ''ann'' 3 \<notin> set [Closes ''ann'' (1 :: nat)]" by simp
  moreover have "\<forall>h'. Opens ''ann'' h' \<notin> set [Closes ''ann'' (1 :: nat)]" by simp
  ultimately show ?thesis unfolding session_members_def by blast
qed

text \<open>
  Claim C8. The claim fails on the code, in the session scope. A connection opens on the
  path of \<open>ann\<close> with the handle 1; a second one opens on the same path with the handle
  3 and replaces it; then the first one closes. The handle 3 has joined and has not left,
  and its join is the most recent of \<open>ann\<close>, so by the claim it is a member; in the code
  the close of the first connection removes the entry of \<open>ann\<close>, whatever handle it
  holds, and the session, left empty, is deleted.
\<close>

theorem replaced_connection_evicts:
  "session_replay ''s1'' [Opens ''ann'' (1 :: nat), Opens ''ann'' 3] = [(''s1'', [(''ann'', 3)])]
   \<and> example_session_ops = [Opens ''ann'' 1, Opens ''ann'' 3, Closes ''ann'' 1]
   \<and> session_replay ''s1'' example_session_ops = []
   \<and> 3 \<in> session_members example_session_ops"
proof -
  have "session_replay ''s1'' [Opens ''ann'' (1 :: nat), Opens ''ann'' 3] = [(''s1'', [(''ann'', 3)])]"
    "example_session_ops = [Opens ''ann'' 1, Opens ''ann'' 3, Closes ''ann'' 1]"
    "session_replay ''s1'' example_session_ops = []"
    by code_simp+
  with example_session_members show ?thesis by simp
qed

end
